theory Spec2Isabelle
  imports Main "HOL-Library.AList"
begin

section \<open>Text: the Python string operations the pipeline uses\<close>

text \<open>
  Program text is a \<^typ>\<open>string\<close>, one \<^typ>\<open>char\<close> per code point. The character classes
  below are Python's on the ASCII range, which is where SQL keywords, the router's keywords
  and the recovery patterns live; a code point above 127 is neither a letter, a digit nor
  white space here.
\<close>

definition is_space :: "char \<Rightarrow> bool" where
  \<comment> \<open>\<open>str.isspace\<close> on ASCII: tab, LF, VT, FF, CR, the separators 0x1C..0x1F and blank\<close>
  "is_space c \<longleftrightarrow>
     (9 \<le> (of_char c :: nat) \<and> (of_char c :: nat) \<le> 13) \<or>
     (28 \<le> (of_char c :: nat) \<and> (of_char c :: nat) \<le> 32)"

definition is_lower_char :: "char \<Rightarrow> bool" where
  "is_lower_char c \<longleftrightarrow> 97 \<le> (of_char c :: nat) \<and> (of_char c :: nat) \<le> 122"

definition is_upper_char :: "char \<Rightarrow> bool" where
  "is_upper_char c \<longleftrightarrow> 65 \<le> (of_char c :: nat) \<and> (of_char c :: nat) \<le> 90"

definition is_digit_char :: "char \<Rightarrow> bool" where
  "is_digit_char c \<longleftrightarrow> 48 \<le> (of_char c :: nat) \<and> (of_char c :: nat) \<le> 57"

definition is_word_char :: "char \<Rightarrow> bool" where
  \<comment> \<open>the class \<open>\w\<close> of \<open>re\<close>: letters, digits and the underscore\<close>
  "is_word_char c \<longleftrightarrow>
     is_lower_char c \<or> is_upper_char c \<or> is_digit_char c \<or> (of_char c :: nat) = 95"

definition to_upper :: "char \<Rightarrow> char" where
  "to_upper c = (if is_lower_char c then char_of ((of_char c :: nat) - 32) else c)"

definition to_lower :: "char \<Rightarrow> char" where
  "to_lower c = (if is_upper_char c then char_of ((of_char c :: nat) + 32) else c)"

definition str_upper :: "string \<Rightarrow> string" where
  "str_upper s = map to_upper s"

definition str_lower :: "string \<Rightarrow> string" where
  "str_lower s = map to_lower s"

definition startswith :: "string \<Rightarrow> string \<Rightarrow> bool" where
  "startswith s p \<longleftrightarrow> take (length p) s = p"

definition endswith :: "string \<Rightarrow> string \<Rightarrow> bool" where
  "endswith s p \<longleftrightarrow> length p \<le> length s \<and> drop (length s - length p) s = p"

fun str_contains :: "string \<Rightarrow> string \<Rightarrow> bool" where
  \<comment> \<open>\<open>sub in s\<close>\<close>
  "str_contains [] sub = (sub = [])"
| "str_contains (c # cs) sub = (startswith (c # cs) sub \<or> str_contains cs sub)"

definition str_strip :: "string \<Rightarrow> string" where
  "str_strip s = rev (dropWhile is_space (rev (dropWhile is_space s)))"

fun split_from :: "string \<Rightarrow> string \<Rightarrow> string list" where
  \<comment> \<open>\<open>str.split()\<close> as a scan: the first argument is the word being read, reversed\<close>
  "split_from cur [] = (if cur = [] then [] else [rev cur])"
| "split_from cur (c # cs) =
     (if is_space c then (if cur = [] then split_from [] cs else rev cur # split_from [] cs)
      else split_from (c # cur) cs)"

definition str_split :: "string \<Rightarrow> string list" where
  "str_split s = split_from [] s"

fun join_spaces :: "string list \<Rightarrow> string" where
  \<comment> \<open>\<open>" ".join(ws)\<close>\<close>
  "join_spaces [] = []"
| "join_spaces [w] = w"
| "join_spaces (w # v # ws) = w @ CHR 0x20 # join_spaces (v # ws)"

subsection \<open>The two regular expressions\<close>

text \<open>
  \<open>re.search(r'\bKW\b', s)\<close> for a keyword made of word characters: some occurrence of the
  keyword has no word character directly before it and none directly after it. The scan
  carries the character before the current position.
\<close>

definition boundary_before :: "char option \<Rightarrow> bool" where
  "boundary_before prev = (case prev of None \<Rightarrow> True | Some p \<Rightarrow> \<not> is_word_char p)"

definition boundary_after :: "string \<Rightarrow> bool" where
  "boundary_after rest = (case rest of [] \<Rightarrow> True | r # _ \<Rightarrow> \<not> is_word_char r)"

definition word_here :: "bool \<Rightarrow> string \<Rightarrow> char option \<Rightarrow> string \<Rightarrow> bool" where
  \<comment> \<open>the keyword matches at the head of \<open>s\<close>; \<open>ic\<close> is \<open>re.IGNORECASE\<close>\<close>
  "word_here ic kw prev s \<longleftrightarrow>
     boundary_before prev \<and>
     (if ic then str_upper (take (length kw) s) = kw else take (length kw) s = kw) \<and>
     boundary_after (drop (length kw) s)"

fun search_from :: "bool \<Rightarrow> string \<Rightarrow> char option \<Rightarrow> string \<Rightarrow> bool" where
  "search_from ic kw prev [] = False"
| "search_from ic kw prev (c # cs) =
     (word_here ic kw prev (c # cs) \<or> search_from ic kw (Some c) cs)"

definition re_search_word :: "string \<Rightarrow> string \<Rightarrow> bool" where
  \<comment> \<open>\<open>re.search(r'\b' + re.escape(kw) + r'\b', s)\<close>, case-sensitive\<close>
  "re_search_word kw s = search_from False kw None s"

definition re_search_word_ic :: "string \<Rightarrow> string \<Rightarrow> bool" where
  \<comment> \<open>the same with \<open>re.IGNORECASE\<close>; \<open>kw\<close> is given in upper case\<close>
  "re_search_word_ic kw s = search_from True kw None s"

function sub_from :: "string \<Rightarrow> string \<Rightarrow> char option \<Rightarrow> string \<Rightarrow> string" where
  \<comment> \<open>\<open>re.sub(r'\bKW\b', repl, s, flags=re.IGNORECASE)\<close>: leftmost matches, not overlapping\<close>
  "sub_from kw repl prev [] = []"
| "sub_from kw repl prev (c # cs) =
     (if kw \<noteq> [] \<and> word_here True kw prev (c # cs)
      then repl @ sub_from kw repl (Some (last (take (length kw) (c # cs))))
                    (drop (length kw) (c # cs))
      else c # sub_from kw repl (Some c) cs)"
  by pat_completeness auto
termination
  by (relation "measure (\<lambda>(kw, repl, prev, s). length s)") auto

definition re_sub_word_ic :: "string \<Rightarrow> string \<Rightarrow> string \<Rightarrow> string" where
  "re_sub_word_ic kw repl s = sub_from kw repl None s"

section \<open>The pipeline state and the collaborators\<close>

text \<open>
  A result table (a pandas DataFrame in the source) is modelled by its column names and its
  rows of cells. \<open>AgentState\<close> is a dictionary with every key present and optional values;
  the message history, which no stage below touches, is left out.
\<close>

record dataframe =
  columns :: "string list"
  rows :: "string list list"

type_synonym viz_spec = "(string \<times> string) list"

record agent_state =
  query :: string
  sql_query :: "string option"
  query_result :: "dataframe option"
  insights :: "string option"
  visualization_spec :: "viz_spec option"
  error :: "string option"
  query_metadata :: "(string \<times> string) list option"
  retry_count :: "int option"
  previous_errors :: "string list option"

definition create_initial_state :: "string \<Rightarrow> agent_state" where
  "create_initial_state q =
     \<lparr>query = q, sql_query = None, query_result = None, insights = None,
      visualization_spec = None, error = None, query_metadata = None,
      retry_count = Some 0, previous_errors = None\<rparr>"

datatype py_error = AttributeError | TypeError

text \<open>
  The collaborators are parameters. A call either returns a value (\<open>Inr\<close>) or raises, and
  then \<open>Inl\<close> carries \<open>str(e)\<close> of the exception. \<open>llm_service\<close> and \<open>schema_service\<close>
  may be absent (\<open>None\<close>), as \<open>_get_services\<close> allows.
  \<^item> \<open>bigquery_execute\<close>: \<open>bigquery_service.execute_query(sql, limit_rows=config.MAX_QUERY_ROWS)\<close>;
  \<^item> \<open>schema_service\<close>: \<open>build_schema_context(include_examples=b)\<close>;
  \<^item> \<open>llm_service\<close>: \<open>generate_text(prompt)\<close>;
  \<^item> \<open>insight_prompt\<close>: \<open>format_query_result\<close> followed by \<open>get_insight_generation_prompt\<close>,
    which render the table with pandas;
  \<^item> \<open>visualize\<close>: \<open>VisualizationService().create_visualization(df, query_type, title)\<close>.
\<close>

record services =
  bigquery_execute :: "string option \<Rightarrow> string + dataframe"
  schema_service :: "(bool \<Rightarrow> string + string) option"
  llm_service :: "(string \<Rightarrow> string + string) option"
  insight_prompt :: "string \<Rightarrow> dataframe \<Rightarrow> string option \<Rightarrow> string + string"
  visualize :: "dataframe \<Rightarrow> string option \<Rightarrow> string \<Rightarrow> string + viz_spec option"

definition truthy :: "string option \<Rightarrow> bool" where
  \<comment> \<open>what \<open>if state.get("error"):\<close> tests: a message that is present and not empty\<close>
  "truthy e = (case e of None \<Rightarrow> False | Some m \<Rightarrow> m \<noteq> [])"

definition metadata_type :: "agent_state \<Rightarrow> string option" where
  \<comment> \<open>\<open>state.get("query_metadata", {}).get("type") if state.get("query_metadata") else None\<close>\<close>
  "metadata_type s =
     (case query_metadata s of None \<Rightarrow> None
      | Some m \<Rightarrow> if m = [] then None else map_of m ''type'')"

section \<open>QueryValidator: \<open>validate_sql\<close>\<close>

definition forbidden_keywords :: "string list" where
  "forbidden_keywords =
     [''DROP'', ''DELETE'', ''INSERT'', ''UPDATE'', ''ALTER'', ''CREATE'', ''TRUNCATE'']"

definition validate_sql :: "agent_state \<Rightarrow> py_error + agent_state" where
  \<comment> \<open>\<open>sql_upper\<close> is computed by the source and never read; both checks run on \<open>sql\<close>.
      The checks after the SELECT test only collect advisory notes and leave the state alone.
      With \<open>sql_query\<close> \<open>None\<close>, \<open>sql.upper()\<close> raises.\<close>
  "validate_sql s =
     (if truthy (error s) then Inr s
      else case sql_query s of
        None \<Rightarrow> Inl AttributeError
      | Some sql \<Rightarrow>
          (case find (\<lambda>keyword. re_search_word keyword sql) forbidden_keywords of
             Some keyword \<Rightarrow>
               Inr (s\<lparr>error := Some (''Query contains forbidden operation: '' @ keyword)\<rparr>)
           | None \<Rightarrow>
               if \<not> str_contains sql ''SELECT''
               then Inr (s\<lparr>error := Some ''Query must be a SELECT statement''\<rparr>)
               else Inr s))"

section \<open>RecoveryEngine: \<open>_recover_from_error\<close>\<close>

definition nl :: string where
  "nl = [CHR 0x0A]"

definition get_error_recovery_prompt :: "string \<Rightarrow> string \<Rightarrow> string \<Rightarrow> string \<Rightarrow> string" where
  "get_error_recovery_prompt user_query failed_query error_message schema_context =
     ''You are a SQL expert. A previous SQL query failed with an error. '' @
     ''Please generate a corrected query.'' @ nl @ nl @
     ''ORIGINAL USER QUESTION: '' @ user_query @ nl @ nl @
     ''FAILED QUERY:'' @ nl @ failed_query @ nl @ nl @
     ''ERROR MESSAGE:'' @ nl @ error_message @ nl @ nl @
     schema_context @ nl @ nl @
     ''INSTRUCTIONS:'' @ nl @
     ''1. Analyze the error message to understand what went wrong'' @ nl @
     ''2. Common issues:'' @ nl @
     ''   - Column name typos or incorrect table references'' @ nl @
     ''   - Missing JOIN conditions'' @ nl @
     ''   - Data type mismatches in WHERE clauses'' @ nl @
     ''   - Missing table aliases'' @ nl @
     ''   - Incorrect aggregate function usage'' @ nl @
     ''3. Generate a corrected SQL query that fixes the error'' @ nl @
     ''4. Ensure the query still answers the original user question'' @ nl @ nl @
     ''Return ONLY the corrected SQL query, no explanations.'' @ nl"

definition fence :: string where
  "fence = [CHR 0x60, CHR 0x60, CHR 0x60]"

definition clean_sql_output :: "string \<Rightarrow> string" where
  \<comment> \<open>the lines under \<open># Clean SQL output\<close>, which the source has twice, word for word\<close>
  "clean_sql_output text =
     (let t1 = str_strip text;
          t2 = (if startswith t1 (fence @ ''sql'') then drop 6 t1
                else if startswith t1 fence then drop 3 t1 else t1);
          t3 = (if endswith t2 fence then take (length t2 - 3) t2 else t2)
      in str_strip t3)"

definition timestamp_signature :: "string \<Rightarrow> bool" where
  \<comment> \<open>the condition of \<open>Fix 2\<close>\<close>
  "timestamp_signature error_msg \<longleftrightarrow>
     (str_contains error_msg ''TIMESTAMP'' \<and> str_contains error_msg ''DATE'') \<or>
     str_contains error_msg ''DATE_DIFF does not support''"

definition column_signature :: "string \<Rightarrow> bool" where
  \<comment> \<open>the condition of \<open>Fix 3\<close>\<close>
  "column_signature error_msg \<longleftrightarrow>
     str_contains (str_lower error_msg) ''not found'' \<or>
     str_contains (str_lower error_msg) ''column''"

definition datediff_fix :: "string \<Rightarrow> string \<Rightarrow> string" where
  \<comment> \<open>\<open>Fix 1\<close>\<close>
  "datediff_fix error_msg failed_sql =
     (if str_contains (str_upper error_msg) ''DATEDIFF'' \<or> re_search_word_ic ''DATEDIFF'' failed_sql
      then re_sub_word_ic ''DATEDIFF'' ''DATE_DIFF'' failed_sql
      else failed_sql)"

definition retry_with :: "agent_state \<Rightarrow> string \<Rightarrow> agent_state" where
  \<comment> \<open>the last two assignments of \<open>_recover_from_error\<close>\<close>
  "retry_with s corrected_sql = s\<lparr>sql_query := Some corrected_sql, error := None\<rparr>"

definition llm_fix ::
  "services \<Rightarrow> agent_state \<Rightarrow> string \<Rightarrow> string \<Rightarrow> string \<Rightarrow> agent_state" where
  \<comment> \<open>the body of \<open>Fix 2\<close> and of \<open>Fix 3\<close>: \<open>if llm_service and schema_service: try: ...\<close>;
      an exception anywhere in the \<open>try\<close> returns the state as it is\<close>
  "llm_fix sv s failed_sql error_msg corrected_sql =
     (case (llm_service sv, schema_service sv) of
        (Some generate_text, Some build_schema_context) \<Rightarrow>
          (case build_schema_context False of
             Inl e \<Rightarrow> s
           | Inr schema_context \<Rightarrow>
               (case generate_text
                       (get_error_recovery_prompt (query s) failed_sql error_msg schema_context) of
                  Inl e \<Rightarrow> s
                | Inr text \<Rightarrow> retry_with s (clean_sql_output text)))
      | _ \<Rightarrow> retry_with s corrected_sql)"

definition track_error :: "agent_state \<Rightarrow> string \<Rightarrow> agent_state" where
  \<comment> \<open>the lines under \<open># Track previous errors\<close>\<close>
  "track_error s error_msg =
     s\<lparr>previous_errors :=
         Some ((case previous_errors s of None \<Rightarrow> [] | Some es \<Rightarrow> es) @ [error_msg])\<rparr>"

definition recover_from_error :: "services \<Rightarrow> agent_state \<Rightarrow> string \<Rightarrow> py_error + agent_state" where
  \<comment> \<open>with \<open>sql_query\<close> \<open>None\<close> the regular expression of \<open>Fix 1\<close> raises\<close>
  "recover_from_error sv s error_msg =
     (case sql_query s of
        None \<Rightarrow> Inl TypeError
      | Some failed_sql \<Rightarrow>
          (let s1 = track_error s error_msg;
               corrected_sql = datediff_fix error_msg failed_sql
           in if timestamp_signature error_msg
              then Inr (llm_fix sv s1 failed_sql error_msg corrected_sql)
              else if column_signature error_msg
              then Inr (llm_fix sv s1 failed_sql error_msg corrected_sql)
              else Inr (retry_with s1 corrected_sql)))"

section \<open>PipelineOrchestrator: the execute, analyze and visualize stages\<close>

definition max_retries :: int where
  "max_retries = 2"

function execute_query :: "services \<Rightarrow> agent_state \<Rightarrow> py_error + agent_state" where
  \<comment> \<open>\<open>retry_count\<close> \<open>None\<close> makes the comparison with \<open>max_retries\<close> raise. On success the
      source clears \<open>error\<close> only if it is truthy, which the first test has excluded.\<close>
  "execute_query sv s =
     (if truthy (error s) then Inr s
      else case retry_count s of
        None \<Rightarrow> Inl TypeError
      | Some rc \<Rightarrow>
          if rc \<ge> max_retries then Inr s
          else (case bigquery_execute sv (sql_query s) of
                  Inr result \<Rightarrow> Inr (s\<lparr>query_result := Some result, retry_count := Some 0\<rparr>)
                | Inl error_msg \<Rightarrow>
                    if rc < max_retries
                    then (case recover_from_error sv
                                 (s\<lparr>error := Some (''Query execution failed: '' @ error_msg)\<rparr>)
                                 error_msg of
                            Inl e \<Rightarrow> Inl e
                          | Inr s' \<Rightarrow> execute_query sv (s'\<lparr>retry_count := Some (rc + 1)\<rparr>))
                    else Inr (s\<lparr>error := Some (''Query execution failed: '' @ error_msg)\<rparr>)))"
  by pat_completeness auto
termination
  by (relation "measure (\<lambda>(sv, s). case retry_count s of None \<Rightarrow> 0 | Some rc \<Rightarrow> nat (max_retries - rc))")
     auto

declare execute_query.simps [simp del]

subsection \<open>\<open>analyze_results\<close>\<close>

datatype piece = Lit string | Field string

fun format_template :: "piece list \<Rightarrow> (string \<times> string) list \<Rightarrow> string + string" where
  \<comment> \<open>\<open>template.format(**kw)\<close>; a field that is not supplied raises \<open>KeyError\<close>, whose \<open>str\<close>
      is the field name in single quotes\<close>
  "format_template [] kw = Inr []"
| "format_template (Lit t # ps) kw =
     (case format_template ps kw of Inl e \<Rightarrow> Inl e | Inr r \<Rightarrow> Inr (t @ r))"
| "format_template (Field f # ps) kw =
     (case map_of kw f of
        None \<Rightarrow> Inl ([CHR 0x27] @ f @ [CHR 0x27])
      | Some v \<Rightarrow> (case format_template ps kw of Inl e \<Rightarrow> Inl e | Inr r \<Rightarrow> Inr (v @ r)))"

definition get_simple_insight_template :: "string option \<Rightarrow> piece list" where
  "get_simple_insight_template query_type =
     (if query_type = Some ''count'' then
        [Lit ''The query returned '', Field ''count'',
         Lit '' records. This represents the total number of '', Field ''entity'',
         Lit '' in the dataset.'']
      else if query_type = Some ''ranking'' then
        [Lit ''The top '', Field ''n'', Lit '' items are shown. The leading item has '',
         Field ''value'', Lit '' '', Field ''metric'', Lit ''.'']
      else if query_type = Some ''aggregation'' then
        [Lit ''The average value is '', Field ''avg'', Lit ''. This indicates '',
         Field ''interpretation'', Lit ''.'']
      else
        [Lit ''Query returned '', Field ''rows'', Lit '' rows with '', Field ''cols'',
         Lit '' columns. Review the data for specific insights.''])"

function show_nat :: "nat \<Rightarrow> string" where
  \<comment> \<open>\<open>str(n)\<close> for the lengths that \<open>format\<close> prints\<close>
  "show_nat n =
     (if n < 10 then [char_of (48 + n)] else show_nat (n div 10) @ [char_of (48 + n mod 10)])"
  by pat_completeness auto
termination
  by (relation "measure id") auto

declare show_nat.simps [simp del]

definition insight_failed :: "agent_state \<Rightarrow> string \<Rightarrow> agent_state" where
  \<comment> \<open>the \<open>except\<close> branch of \<open>analyze_results\<close>\<close>
  "insight_failed s e = s\<lparr>error := Some (''Insight generation failed: '' @ e)\<rparr>"

definition generate_insights :: "services \<Rightarrow> agent_state \<Rightarrow> dataframe \<Rightarrow> string + string" where
  \<comment> \<open>the body of the \<open>try\<close>: the insight text, or \<open>str(e)\<close> of what was raised\<close>
  "generate_insights sv s df =
     (case llm_service sv of
        None \<Rightarrow>
          format_template (get_simple_insight_template (metadata_type s))
            [(''count'', show_nat (length (rows df))),
             (''rows'', show_nat (length (rows df))),
             (''cols'', show_nat (length (columns df))),
             (''entity'', ''items'')]
      | Some generate_text \<Rightarrow>
          (case insight_prompt sv (query s) df (metadata_type s) of
             Inl e \<Rightarrow> Inl e
           | Inr prompt \<Rightarrow> generate_text prompt))"

definition analyze_results :: "services \<Rightarrow> agent_state \<Rightarrow> agent_state" where
  "analyze_results sv s =
     (if truthy (error s) then s
      else case query_result s of
        None \<Rightarrow> s
      | Some df \<Rightarrow>
          (case generate_insights sv s df of
             Inl e \<Rightarrow> insight_failed s e
           | Inr text \<Rightarrow> s\<lparr>insights := Some text\<rparr>))"

subsection \<open>\<open>create_visualization\<close>\<close>

definition create_visualization :: "services \<Rightarrow> agent_state \<Rightarrow> agent_state" where
  "create_visualization sv s =
     (if truthy (error s) then s
      else case query_result s of
        None \<Rightarrow> s
      | Some df \<Rightarrow>
          (case visualize sv df (metadata_type s) (query s) of
             Inl e \<Rightarrow> s\<lparr>visualization_spec := None\<rparr>
           | Inr viz_spec \<Rightarrow> s\<lparr>visualization_spec := viz_spec\<rparr>))"

section \<open>Router: \<open>route_to_agent\<close>\<close>

definition any_keyword :: "string list \<Rightarrow> string \<Rightarrow> bool" where
  \<comment> \<open>\<open>any(kw in query for kw in keywords)\<close>\<close>
  "any_keyword keywords q = list_ex (\<lambda>kw. str_contains q kw) keywords"

definition geo_keywords :: "string list" where
  "geo_keywords =
     [''geographic'', ''by location'', ''by state'', ''by country'', ''by region'', ''by city'',
      ''location'', ''state'', ''country'', ''region'', ''city'']"

definition customer_keywords :: "string list" where
  "customer_keywords = [''customer'', ''user'', ''segment'', ''demographic'', ''age'', ''gender'']"

definition product_keywords :: "string list" where
  "product_keywords = [''product'', ''item'', ''catalog'', ''inventory'', ''category'', ''brand'']"

definition temporal_keywords :: "string list" where
  "temporal_keywords =
     [''trend'', ''over time'', ''by month'', ''by year'', ''by day'', ''growth'', ''decline'',
      ''seasonal'']"

definition sales_keywords :: "string list" where
  "sales_keywords = [''revenue'', ''sales'', ''income'', ''profit'']"

definition route_query_type :: "agent_state \<Rightarrow> string" where
  \<comment> \<open>\<open>query_metadata = state.get("query_metadata") or {}\<close>, then
      \<open>query_metadata.get("type", "general") if query_metadata else "general"\<close>\<close>
  "route_query_type s =
     (case query_metadata s of
        None \<Rightarrow> ''general''
      | Some m \<Rightarrow> if m = [] then ''general''
                  else (case map_of m ''type'' of None \<Rightarrow> ''general'' | Some t \<Rightarrow> t))"

definition route_to_agent :: "agent_state \<Rightarrow> string" where
  "route_to_agent s =
     (let q = str_lower (query s); query_type = route_query_type s
      in if any_keyword geo_keywords q then ''geographic''
         else if any_keyword customer_keywords q \<or> query_type = ''customer_analysis''
         then ''customer_segmentation''
         else if any_keyword product_keywords q \<or> query_type = ''product_analysis''
         then ''product_performance''
         else if any_keyword (temporal_keywords @ sales_keywords) q \<or>
                 query_type \<in> set [''temporal'', ''sales_analysis'']
         then ''sales_trends''
         else ''general'')"

section \<open>ResultCache: \<open>CacheService\<close>\<close>

text \<open>
  DataFrames are objects: \<open>copy()\<close> makes a new one, and a caller may change one in place.
  The object store is a list of tables, an object's address is its index, and a new object
  goes to the end. Python has no dangling reference, so every address a caller holds is
  below the length of the store. The clock \<open>datetime.now(UTC)\<close> is an argument, in
  microseconds. The dictionary \<open>_query_cache\<close> is an association list in insertion order.
  The fingerprint \<open>hashlib.md5(json.dumps(..., sort_keys=True).encode()).hexdigest()\<close> of
  the normalised query and the keyword arguments is the parameter \<open>H\<close>.
\<close>

type_synonym addr = nat

type_synonym heap = "dataframe list"

record cache_entry =
  result :: addr
  expires_at :: int
  cached_at :: int
  cached_query :: string

record 'k cache_service =
  query_cache :: "('k \<times> cache_entry) list"
  ttl_seconds :: int

definition df_copy :: "heap \<Rightarrow> addr \<Rightarrow> heap \<times> addr" where
  \<comment> \<open>\<open>df.copy()\<close> of the object at a live address\<close>
  "df_copy h a = (h @ [h ! a], length h)"


definition normalized_query :: "string \<Rightarrow> string" where
  \<comment> \<open>\<open>" ".join(query.upper().split())\<close>\<close>
  "normalized_query q = join_spaces (str_split (str_upper q))"

definition generate_cache_key :: "(string \<Rightarrow> 'p \<Rightarrow> 'k) \<Rightarrow> string \<Rightarrow> 'p \<Rightarrow> 'k" where
  "generate_cache_key H q kwargs = H (normalized_query q) kwargs"

definition get_cached_result ::
  "(string \<Rightarrow> 'p \<Rightarrow> 'k) \<Rightarrow> heap \<times> 'k cache_service \<Rightarrow> string \<Rightarrow> 'p \<Rightarrow> int \<Rightarrow>
     (heap \<times> 'k cache_service) \<times> addr option" where
  "get_cached_result H w q kwargs now =
     (let cache_key = generate_cache_key H q kwargs; h = fst w; cs = snd w
      in case map_of (query_cache cs) cache_key of
           None \<Rightarrow> (w, None)
         | Some cached_item \<Rightarrow>
             if now > expires_at cached_item
             then ((h, cs\<lparr>query_cache := AList.delete cache_key (query_cache cs)\<rparr>), None)
             else ((fst (df_copy h (result cached_item)), cs),
                   Some (snd (df_copy h (result cached_item)))))"


record cache_stats =
  total_entries :: int
  valid_entries :: int
  expired_entries :: int
  stats_ttl_seconds :: int

definition get_cache_stats :: "'k cache_service \<Rightarrow> int \<Rightarrow> cache_stats" where
  "get_cache_stats cs now =
     (let valid = int (length (filter (\<lambda>item. expires_at item > now) (map snd (query_cache cs))));
          total = int (length (query_cache cs))
      in \<lparr>total_entries = total, valid_entries = valid, expired_entries = total - valid,
          stats_ttl_seconds = ttl_seconds cs\<rparr>)"

definition cleanup_expired :: "'k cache_service \<Rightarrow> int \<Rightarrow> 'k cache_service \<times> int" where
  "cleanup_expired cs now =
     (let expired_keys = map fst (filter (\<lambda>(key, item). expires_at item \<le> now) (query_cache cs))
      in (cs\<lparr>query_cache := fold AList.delete expired_keys (query_cache cs)\<rparr>,
          int (length expired_keys)))"


section \<open>The router as a table of steps\<close>

text \<open>
  The router in the specification's terms: a fixed list of steps, each with its keywords,
  the classifications that name its track, and the track; the first step that matches wins
  and \<open>general\<close> is the default.
\<close>

definition route_steps :: "(string list \<times> string list \<times> string) list" where
  "route_steps =
     [(geo_keywords, [], ''geographic''),
      (customer_keywords, [''customer_analysis''], ''customer_segmentation''),
      (product_keywords, [''product_analysis''], ''product_performance''),
      (temporal_keywords @ sales_keywords, [''temporal'', ''sales_analysis''], ''sales_trends'')]"

fun first_match :: "(string list \<times> string list \<times> string) list \<Rightarrow> string \<Rightarrow> string \<Rightarrow> string" where
  "first_match [] q query_type = ''general''"
| "first_match ((keywords, types, track) # steps) q query_type =
     (if any_keyword keywords q \<or> query_type \<in> set types then track
      else first_match steps q query_type)"

fun earlier_keywords :: "(string list \<times> string list \<times> string) list \<Rightarrow> string \<Rightarrow> string list" where
  \<comment> \<open>the keywords of the steps before the one a classification names\<close>
  "earlier_keywords [] query_type = []"
| "earlier_keywords ((keywords, types, track) # steps) query_type =
     (if query_type \<in> set types then [] else keywords @ earlier_keywords steps query_type)"

fun classification_track :: "(string list \<times> string list \<times> string) list \<Rightarrow> string \<Rightarrow> string option" where
  \<comment> \<open>the specialized track a classification names, if any\<close>
  "classification_track [] query_type = None"
| "classification_track ((keywords, types, track) # steps) query_type =
     (if query_type \<in> set types then Some track else classification_track steps query_type)"

section \<open>Collaborators and states used as concrete inputs\<close>

definition raise_table_not_found :: "string option \<Rightarrow> string + dataframe" where
  "raise_table_not_found sql = Inl ''Table not found''"


definition raise_unknown_column :: "string option \<Rightarrow> string + dataframe" where
  "raise_unknown_column sql = Inl ''Unrecognized name: user_id; column not found in orders''"

definition plain_prompt :: "string \<Rightarrow> dataframe \<Rightarrow> string option \<Rightarrow> string + string" where
  "plain_prompt q df t = Inr q"

definition no_chart :: "dataframe \<Rightarrow> string option \<Rightarrow> string \<Rightarrow> string + viz_spec option" where
  "no_chart df t q = Inr None"

definition chart_fails :: "dataframe \<Rightarrow> string option \<Rightarrow> string \<Rightarrow> string + viz_spec option" where
  "chart_fails df t q = Inl ''unsupported column type''"

definition schema_text :: "bool \<Rightarrow> string + string" where
  "schema_text include_examples = Inr ''orders(order_id, status, created_at)''"

definition llm_down :: "string \<Rightarrow> string + string" where
  "llm_down prompt = Inl ''503 service unavailable''"


definition services_without_llm :: services where
  \<comment> \<open>the services of the repository's test of error propagation: no LLM, no schema\<close>
  "services_without_llm =
     \<lparr>bigquery_execute = raise_table_not_found, schema_service = None, llm_service = None,
      insight_prompt = plain_prompt, visualize = no_chart\<rparr>"

definition services_llm_down :: services where
  "services_llm_down =
     \<lparr>bigquery_execute = raise_unknown_column, schema_service = Some schema_text,
      llm_service = Some llm_down, insight_prompt = plain_prompt, visualize = chart_fails\<rparr>"


definition one_row_table :: dataframe where
  "one_row_table = \<lparr>columns = [''order_count''], rows = [[''125451'']]\<rparr>"

definition state_with_sql :: "string \<Rightarrow> string \<Rightarrow> agent_state" where
  "state_with_sql q sql = (create_initial_state q)\<lparr>sql_query := Some sql\<rparr>"

definition state_with_result :: "string \<Rightarrow> dataframe \<Rightarrow> agent_state" where
  "state_with_result q df = (create_initial_state q)\<lparr>query_result := Some df\<rparr>"

definition pair_key :: "string \<Rightarrow> nat \<Rightarrow> string \<times> nat" where
  \<comment> \<open>a fingerprint without collisions, for concrete runs; the argument is \<open>limit_rows\<close>\<close>
  "pair_key q limit_rows = (q, limit_rows)"


definition stale_cache :: "(string \<times> nat) cache_service" where
  \<comment> \<open>one entry for \<open>SELECT 1\<close> with \<open>limit_rows=10\<close> that expires at time 5\<close>
  "stale_cache =
     \<lparr>query_cache =
        [((''SELECT 1'', 10),
          \<lparr>result = 0, expires_at = 5, cached_at = 0, cached_query = ''SELECT 1''\<rparr>)],
      ttl_seconds = 3600\<rparr>"

section \<open>QueryValidator: the forbidden-keyword scan\<close>

text \<open>
  Claim C1 (forbidden keywords in any letter case are rejected, keywords inside a longer
  identifier are not). The scan runs on \<open>sql\<close>, not on \<open>sql_upper\<close>, and without
  \<open>re.IGNORECASE\<close>: a statement that has \<open>SELECT\<close> in upper case and \<open>drop table\<close> in lower
  case comes back with no error recorded.
\<close>

theorem lowercase_drop_passes_validation:
  "validate_sql (state_with_sql ''Query'' ''SELECT * FROM orders; drop table orders'') =
   Inr (state_with_sql ''Query'' ''SELECT * FROM orders; drop table orders'')"
  by code_simp

lemma keyword_inside_identifier_passes:
  "validate_sql (state_with_sql ''Query'' ''SELECT update_count FROM orders'') =
   Inr (state_with_sql ''Query'' ''SELECT update_count FROM orders'')"
  by code_simp

lemma uppercase_drop_rejected:
  "validate_sql (state_with_sql ''Query'' ''SELECT * FROM orders; DROP TABLE orders'') =
   Inr ((state_with_sql ''Query'' ''SELECT * FROM orders; DROP TABLE orders'')
          \<lparr>error := Some ''Query contains forbidden operation: DROP''\<rparr>)"
  by code_simp

section \<open>PipelineOrchestrator: retries and short-circuit\<close>

text \<open>
  Claim C2 (an execution that fails on every try ends with the error populated after
  exactly two recovery attempts). With the services of the repository's own test of error
  propagation, execution fails twice and recovery runs twice, as the claim says; the
  third entry returns at the retry bound with the error that the second recovery cleared:
  the final state has \<open>error = None\<close> and no result.
\<close>

theorem exhausted_retries_lose_error:
  "execute_query services_without_llm (state_with_sql ''Query'' ''SELECT * FROM invalid_table'') =
   Inr \<lparr>query = ''Query'', sql_query = Some ''SELECT * FROM invalid_table'',
        query_result = None, insights = None, visualization_spec = None,
        error = None, query_metadata = None, retry_count = Some 2,
        previous_errors = Some [''Table not found'', ''Table not found'']\<rparr>"
  by code_simp

text \<open>
  Claim C4 (short-circuit): in a state whose error is set, \<open>validate_sql\<close>, \<open>execute_query\<close>,
  \<open>analyze_results\<close> and \<open>create_visualization\<close> each return the state as it is, so
  \<open>sql_query\<close>, \<open>query_result\<close>, \<open>insights\<close> and \<open>visualization_spec\<close> are unchanged. An
  error is set when it holds a message that is not empty, which is what every stage tests.
\<close>

theorem short_circuit_on_error:
  assumes "truthy (error s)"
  shows "validate_sql s = Inr s \<and> execute_query sv s = Inr s \<and>
         analyze_results sv s = s \<and> create_visualization sv s = s"
  using assms
  by (simp add: validate_sql_def execute_query.simps analyze_results_def create_visualization_def)

theorem short_circuit_on_error_witness:
  "truthy (error ((state_with_sql ''Query'' ''DROP TABLE orders'')
                    \<lparr>error := Some ''SQL generation failed: timeout''\<rparr>)) \<and>
   validate_sql ((state_with_sql ''Query'' ''DROP TABLE orders'')
                    \<lparr>error := Some ''SQL generation failed: timeout''\<rparr>) =
     Inr ((state_with_sql ''Query'' ''DROP TABLE orders'')
                    \<lparr>error := Some ''SQL generation failed: timeout''\<rparr>) \<and>
   execute_query services_without_llm
       ((state_with_sql ''Query'' ''DROP TABLE orders'')
                    \<lparr>error := Some ''SQL generation failed: timeout''\<rparr>) =
     Inr ((state_with_sql ''Query'' ''DROP TABLE orders'')
                    \<lparr>error := Some ''SQL generation failed: timeout''\<rparr>)"
proof -
  have h: "truthy (error ((state_with_sql ''Query'' ''DROP TABLE orders'')
                            \<lparr>error := Some ''SQL generation failed: timeout''\<rparr>))"
    by (simp add: truthy_def)
  show ?thesis
    using h short_circuit_on_error [OF h, of services_without_llm] by simp
qed

section \<open>RecoveryEngine: delegation and giving up\<close>








lemma recover_gives_up:
  assumes "sql_query s = Some failed_sql"
    and "timestamp_signature error_msg \<or> column_signature error_msg"
    and "llm_service sv = Some generate_text"
    and "schema_service sv = Some build_schema_context"
    and "build_schema_context False = Inr schema_context"
    and "generate_text (get_error_recovery_prompt (query s) failed_sql error_msg schema_context) = Inl e"
  shows "recover_from_error sv s error_msg = Inr (track_error s error_msg)"
  using assms by (auto simp: recover_from_error_def llm_fix_def track_error_def Let_def)

lemma recovery_without_signature:
  assumes "sql_query s = Some failed_sql"
    and "\<not> timestamp_signature error_msg" and "\<not> column_signature error_msg"
  shows "recover_from_error sv s error_msg =
           Inr (retry_with (track_error s error_msg) (datediff_fix error_msg failed_sql))"
  using assms by (simp add: recover_from_error_def Let_def)

text \<open>
  Claim C7: when recovery delegates to the text-generation collaborator and that call
  raises, \<open>_recover_from_error\<close> returns the state with the error it was given and the
  failed SQL, both untouched; and \<open>execute_query\<close>, which recorded the execution error
  before calling it, then stops with that error, the failed SQL and no new result.
\<close>

theorem failed_delegation_keeps_error:
  assumes "sql_query s = Some failed_sql"
    and "timestamp_signature error_msg \<or> column_signature error_msg"
    and "llm_service sv = Some generate_text"
    and "schema_service sv = Some build_schema_context"
    and "build_schema_context False = Inr schema_context"
    and "generate_text (get_error_recovery_prompt (query s) failed_sql error_msg schema_context) = Inl e"
  shows "recover_from_error sv s error_msg = Inr (track_error s error_msg) \<and>
         error (track_error s error_msg) = error s \<and>
         sql_query (track_error s error_msg) = Some failed_sql \<and>
         (\<not> truthy (error s) \<and> retry_count s = Some rc \<and> rc < max_retries \<and>
          bigquery_execute sv (sql_query s) = Inl error_msg \<longrightarrow>
            execute_query sv s =
              Inr ((track_error s error_msg)
                     \<lparr>error := Some (''Query execution failed: '' @ error_msg),
                      retry_count := Some (rc + 1)\<rparr>))"
proof (intro conjI impI)
  show "recover_from_error sv s error_msg = Inr (track_error s error_msg)"
    by (rule recover_gives_up [OF assms])
  show "error (track_error s error_msg) = error s"
    by (simp add: track_error_def)
  show "sql_query (track_error s error_msg) = Some failed_sql"
    using assms(1) by (simp add: track_error_def)
next
  assume a: "\<not> truthy (error s) \<and> retry_count s = Some rc \<and> rc < max_retries \<and>
        bigquery_execute sv (sql_query s) = Inl error_msg"
  let ?s1 = "s\<lparr>error := Some (''Query execution failed: '' @ error_msg)\<rparr>"
  let ?s2 = "(track_error ?s1 error_msg)\<lparr>retry_count := Some (rc + 1)\<rparr>"
  have r: "recover_from_error sv ?s1 error_msg = Inr (track_error ?s1 error_msg)"
    using recover_gives_up [of ?s1 failed_sql error_msg sv generate_text build_schema_context
        schema_context e] assms
    by simp
  have t: "truthy (error ?s2)"
    by (simp add: track_error_def truthy_def)
  have stop: "execute_query sv ?s2 = Inr ?s2"
    using t by (subst execute_query.simps) simp
  have "execute_query sv s = Inr ?s2"
    using a r stop by (subst execute_query.simps) simp
  then show "execute_query sv s =
              Inr ((track_error s error_msg)
                     \<lparr>error := Some (''Query execution failed: '' @ error_msg),
                      retry_count := Some (rc + 1)\<rparr>)"
    by (simp add: track_error_def)
qed

theorem failed_delegation_keeps_error_witness:
  "execute_query services_llm_down
     (state_with_sql ''Orders per user'' ''SELECT user_id FROM orders'') =
   Inr ((track_error (state_with_sql ''Orders per user'' ''SELECT user_id FROM orders'')
           ''Unrecognized name: user_id; column not found in orders'')
          \<lparr>error := Some (''Query execution failed: '' @
                            ''Unrecognized name: user_id; column not found in orders''),
           retry_count := Some 1\<rparr>)"
proof -
  let ?s = "state_with_sql ''Orders per user'' ''SELECT user_id FROM orders''"
  let ?m = "''Unrecognized name: user_id; column not found in orders''"
  have h1: "sql_query ?s = Some ''SELECT user_id FROM orders''"
    by (simp add: state_with_sql_def)
  have h2: "timestamp_signature ?m \<or> column_signature ?m"
    by code_simp
  have h3: "llm_service services_llm_down = Some llm_down"
    by (simp add: services_llm_down_def)
  have h4: "schema_service services_llm_down = Some schema_text"
    by (simp add: services_llm_down_def)
  have h5: "schema_text False = Inr ''orders(order_id, status, created_at)''"
    by (simp add: schema_text_def)
  have h6: "llm_down (get_error_recovery_prompt (query ?s) ''SELECT user_id FROM orders'' ?m
               ''orders(order_id, status, created_at)'') = Inl ''503 service unavailable''"
    by (simp add: llm_down_def)
  have g: "\<not> truthy (error ?s) \<and> retry_count ?s = Some 0 \<and> 0 < max_retries \<and>
           bigquery_execute services_llm_down (sql_query ?s) = Inl ?m"
    by (simp add: state_with_sql_def create_initial_state_def truthy_def max_retries_def
        services_llm_down_def raise_unknown_column_def)
  show ?thesis
    using failed_delegation_keeps_error [OF h1 h2 h3 h4 h5 h6, of 0] g by simp
qed




section \<open>PipelineOrchestrator: insight and visualization failures\<close>

lemma llm_failure_fails_insights:
  assumes "llm_service sv = Some generate_text"
    and "insight_prompt sv (query s) df (metadata_type s) = Inr prompt"
    and "generate_text prompt = Inl e"
  shows "generate_insights sv s df = Inl e"
  using assms by (simp add: generate_insights_def)

lemma ranking_template_fails_without_llm:
  "error (analyze_results services_without_llm
            ((state_with_result ''Top products'' one_row_table)
               \<lparr>query_metadata := Some [(''type'', ''ranking'')]\<rparr>)) =
   Some (''Insight generation failed: '' @ [CHR 0x27] @ ''n'' @ [CHR 0x27])"
  by code_simp

text \<open>
  Claim C3, as the code has it: in a state with a query result and no error, a failure
  inside insight generation (whatever the \<open>try\<close> of \<open>analyze_results\<close> raises, the
  text-generation collaborator failing included) is written to the error field as
  \<open>Insight generation failed: ...\<close>, and the insights stay as they were. A visualization
  failure does not touch the error field: it sets \<open>visualization_spec\<close> to \<open>None\<close>.
\<close>

theorem insight_failure_sets_error:
  assumes "\<not> truthy (error s)"
    and "query_result s = Some df"
    and "generate_insights sv s df = Inl e"
  shows "analyze_results sv s = s\<lparr>error := Some (''Insight generation failed: '' @ e)\<rparr> \<and>
         insights (analyze_results sv s) = insights s \<and>
         error (create_visualization sv' s) = error s \<and>
         (visualize sv' df (metadata_type s) (query s) = Inl e' \<longrightarrow>
            create_visualization sv' s = s\<lparr>visualization_spec := None\<rparr>)"
  using assms
  by (auto simp: analyze_results_def insight_failed_def create_visualization_def split: sum.splits)

theorem insight_failure_sets_error_witness:
  "analyze_results services_llm_down (state_with_result ''Count orders'' one_row_table) =
     (state_with_result ''Count orders'' one_row_table)
       \<lparr>error := Some (''Insight generation failed: '' @ ''503 service unavailable'')\<rparr> \<and>
   create_visualization services_llm_down (state_with_result ''Count orders'' one_row_table) =
     (state_with_result ''Count orders'' one_row_table)\<lparr>visualization_spec := None\<rparr>"
proof -
  let ?s = "state_with_result ''Count orders'' one_row_table"
  have h1: "\<not> truthy (error ?s)"
    by (simp add: state_with_result_def create_initial_state_def truthy_def)
  have h2: "query_result ?s = Some one_row_table"
    by (simp add: state_with_result_def)
  have h3: "generate_insights services_llm_down ?s one_row_table = Inl ''503 service unavailable''"
    by (rule llm_failure_fails_insights [of _ llm_down _ _ "''Count orders''"])
       (simp_all add: services_llm_down_def plain_prompt_def llm_down_def state_with_result_def
          create_initial_state_def)
  have h4: "visualize services_llm_down one_row_table (metadata_type ?s) (query ?s) =
              Inl ''unsupported column type''"
    by (simp add: services_llm_down_def chart_fails_def)
  show ?thesis
    using insight_failure_sets_error [OF h1 h2 h3, of services_llm_down "''unsupported column type''"] h4
    by simp
qed

text \<open>
  The claim as it was stated fails: with a result present, no error, and the
  text-generation collaborator raising, \<open>analyze_results\<close> returns a state whose error
  field is set.
\<close>

theorem llm_failure_becomes_pipeline_error:
  "error (analyze_results services_llm_down (state_with_result ''Count orders'' one_row_table)) =
   Some ''Insight generation failed: 503 service unavailable''"
  by code_simp

section \<open>Router: precedence\<close>

lemma any_keyword_append:
  "any_keyword (ks @ ks') q \<longleftrightarrow> any_keyword ks q \<or> any_keyword ks' q"
  by (simp add: any_keyword_def list_ex_iff) blast

lemma first_match_classification:
  "classification_track steps query_type = Some track \<Longrightarrow>
   \<not> any_keyword (earlier_keywords steps query_type) q \<Longrightarrow>
   first_match steps q query_type = track"
  by (induction steps q query_type rule: first_match.induct)
     (auto simp: any_keyword_append any_keyword_def split: if_splits)

lemma route_to_agent_steps:
  "route_to_agent s = first_match route_steps (str_lower (query s)) (route_query_type s)"
  by (simp add: route_to_agent_def route_steps_def Let_def)

text \<open>
  Claim C9, as the code has it: the router returns the first step that matches, in the
  order geographic, customer, product, temporal-or-sales, and \<open>general\<close> when none does.
  The geographic step matches on its keywords alone; each later step matches on its
  keywords or on an existing classification that names its track. So an existing
  classification decides the track when no keyword of an earlier step occurs in the
  request; a keyword of an earlier step takes precedence over the classification.
\<close>

theorem router_first_match:
  "route_to_agent s = first_match route_steps (str_lower (query s)) (route_query_type s) \<and>
   (classification_track route_steps (route_query_type s) = Some track \<and>
    \<not> any_keyword (earlier_keywords route_steps (route_query_type s)) (str_lower (query s)) \<longrightarrow>
      route_to_agent s = track)"
  using route_to_agent_steps [of s]
    first_match_classification [of route_steps "route_query_type s" track "str_lower (query s)"]
  by simp

theorem router_first_match_witness:
  "route_to_agent ((create_initial_state ''Query'')
                     \<lparr>query_metadata := Some [(''type'', ''customer_analysis'')]\<rparr>) =
   ''customer_segmentation''"
proof -
  let ?s = "(create_initial_state ''Query'')\<lparr>query_metadata := Some [(''type'', ''customer_analysis'')]\<rparr>"
  have h: "classification_track route_steps (route_query_type ?s) = Some ''customer_segmentation'' \<and>
           \<not> any_keyword (earlier_keywords route_steps (route_query_type ?s)) (str_lower (query ?s))"
    by code_simp
  show ?thesis
    using router_first_match [of ?s "''customer_segmentation''"] h by blast
qed

text \<open>
  The claim as it was stated fails: a request already classified as \<open>customer_analysis\<close>
  whose text has the geographic keyword \<open>state\<close> goes to the geographic track.
\<close>

theorem geographic_keyword_beats_classification:
  "route_to_agent ((create_initial_state ''Sales by state'')
                     \<lparr>query_metadata := Some [(''type'', ''customer_analysis'')]\<rparr>) = ''geographic''"
  by code_simp

section \<open>QueryValidator: the SELECT test\<close>

text \<open>
  Claim C10, as the code has it: the SELECT test is case-sensitive. For a state with no
  error set and every SQL text without the upper-case substring \<open>SELECT\<close> in which no
  forbidden keyword stands as an upper-case whole word, \<open>validate_sql\<close> sets the error
  \<open>Query must be a SELECT statement\<close>, also when the text is a select statement written
  in lower case.
\<close>

theorem select_check_is_case_sensitive:
  assumes "\<not> truthy (error s)"
    and "sql_query s = Some sql"
    and "\<not> str_contains sql ''SELECT''"
    and "\<forall>keyword \<in> set forbidden_keywords. \<not> re_search_word keyword sql"
  shows "validate_sql s = Inr (s\<lparr>error := Some ''Query must be a SELECT statement''\<rparr>)"
proof -
  have "find (\<lambda>keyword. re_search_word keyword sql) forbidden_keywords = None"
    using assms(4) by (simp add: find_None_iff)
  then show ?thesis
    using assms(1-3) by (simp add: validate_sql_def)
qed

theorem select_check_is_case_sensitive_witness:
  "validate_sql (state_with_sql ''Query'' ''select * from orders'') =
   Inr ((state_with_sql ''Query'' ''select * from orders'')
          \<lparr>error := Some ''Query must be a SELECT statement''\<rparr>)"
proof -
  let ?s = "state_with_sql ''Query'' ''select * from orders''"
  have h1: "\<not> truthy (error ?s)"
    by (simp add: state_with_sql_def create_initial_state_def truthy_def)
  have h2: "sql_query ?s = Some ''select * from orders''"
    by (simp add: state_with_sql_def)
  have h3: "\<not> str_contains ''select * from orders'' ''SELECT''"
    by code_simp
  have h4: "\<forall>keyword \<in> set forbidden_keywords. \<not> re_search_word keyword ''select * from orders''"
    by code_simp
  show ?thesis
    by (rule select_check_is_case_sensitive [OF h1 h2 h3 h4])
qed

text \<open>
  The claim as it was stated fails: a statement with \<open>select\<close> in lower case and \<open>DROP\<close>
  in upper case is stopped by the keyword scan, which runs first, and gets that scan's
  error instead.
\<close>

theorem lowercase_select_with_drop_gets_other_error:
  "validate_sql (state_with_sql ''Query'' ''select * from orders; DROP TABLE orders'') =
   Inr ((state_with_sql ''Query'' ''select * from orders; DROP TABLE orders'')
          \<lparr>error := Some ''Query contains forbidden operation: DROP''\<rparr>)"
  by code_simp

section \<open>ResultCache: normalisation, round trip and expiry\<close>

lemma is_space_to_upper: "is_space (to_upper c) = is_space c"
  by (auto simp add: to_upper_def is_space_def is_lower_char_def)













text \<open>
  A stale entry is counted as expired before any lookup or sweep removes it. At the very
  instant of expiry the entry is still returned by a lookup and already counted as expired.
\<close>

lemma stale_entry_counted:
  "expired_entries (get_cache_stats stale_cache 6) = 1 \<and>
   valid_entries (get_cache_stats stale_cache 6) = 0 \<and>
   total_entries (get_cache_stats stale_cache 6) = 1"
  by (simp add: get_cache_stats_def stale_cache_def)

lemma expiry_instant:
  "snd (get_cached_result pair_key ([one_row_table], stale_cache) ''SELECT 1'' 10 5) = Some 1 \<and>
   expired_entries (get_cache_stats stale_cache 5) = 1"
  by (simp add: get_cached_result_def generate_cache_key_def pair_key_def stale_cache_def
      get_cache_stats_def df_copy_def Let_def)
     code_simp

end
